theory Spec2Isabelle
  imports Complex_Main
begin

section \<open>Demonbane level system (LVLSystem.py): data model\<close>

text \<open>
  The embedding follows \<^verbatim>\<open>LVLSystem.py\<close>. Python exceptions are values of the type
  \<open>error\<close>. The module-level random source is a stream of raw draws, \<open>nat \<Rightarrow> nat\<close>;
  every library call consumes the head of the stream and maps it into the range the
  call returns, so that each value Python can return is returned for some stream.
  Enemy dictionaries are shared between \<^verbatim>\<open>room.enemies\<close> and \<^verbatim>\<open>dungeon.enemies\<close> and
  mutated through either alias, so they live in an explicit heap addressed by
  references; items and doors are never reached through two aliases and are values.
\<close>

datatype error = ValueError | IndexError | TypeError | KeyError | Hang

datatype TileType = WALL | FLOOR | DOOR | STAIRS_UP | STAIRS_DOWN | PLAYER | BOSS | CHEST | TRAP | SPECIAL

type_synonym pos = "int \<times> int"

datatype room_type = Normal | BossRoom | SpecialRoom | Entrance | Exit

datatype enemy_type = ENormal | EBoss | EElite

datatype rarity = Common | Uncommon | Rare | Epic | Legendary

datatype feature_type = Altar | Shrine | Fountain | Statue | Library

record enemy =
  etype :: enemy_type
  epos :: pos
  elevel :: int

record item =
  itype :: rarity
  ipos :: pos
  ilevel :: int

record feature =
  ftype :: feature_type
  fpos :: pos
  farea :: int

record door =
  otype :: string
  opos :: pos
  ostate :: string

record room =
  rx :: int
  ry :: int
  rwidth :: int
  rheight :: int
  rtype :: room_type
  connected :: bool
  renemies :: "nat list"
  ritems :: "item list"
  rfeatures :: "feature list"

text \<open>
  \<open>grid\<close> is the numpy array of shape (height, width), as a function of the
  normalised coordinate \<open>(x, y)\<close>; the index arithmetic of numpy (negative indices
  wrap once, anything else raises) is written out in \<open>py_index\<close>.
\<close>

record dungeon =
  width :: int
  height :: int
  player_level :: int
  area_index :: int
  grid :: "pos \<Rightarrow> TileType"
  rooms :: "room list"
  entrance :: "pos option"
  exit_pos :: "pos option"
  objects :: "door list"
  enemies :: "nat list"
  items :: "item list"

record modifier =
  mname :: string
  effect :: string
  min_heat :: int

record manager =
  mwidth :: int
  mheight :: int
  dungeons :: "dungeon list"
  current_area :: int
  player_pos :: "pos option"
  mplayer_level :: int
  heat_level :: int
  active_modifiers :: "modifier list"

record world =
  rng :: "nat \<Rightarrow> nat"
  heap :: "nat \<Rightarrow> enemy"
  next_ref :: nat

type_synonym 'a M = "world \<Rightarrow> error + ('a \<times> world)"

definition ROOM_MIN_SIZE :: int where "ROOM_MIN_SIZE = 5"
definition ROOM_MAX_SIZE :: int where "ROOM_MAX_SIZE = 10"
definition MIN_ROOMS :: int where "MIN_ROOMS = 8"
definition MAX_ROOMS :: int where "MAX_ROOMS = 12"

subsection \<open>Sequencing, errors, random draws, the enemy heap\<close>

definition returnM :: "'a \<Rightarrow> 'a M" where
  "returnM x = (\<lambda>w. Inr (x, w))"

definition bindM :: "'a M \<Rightarrow> ('a \<Rightarrow> 'b M) \<Rightarrow> 'b M" where
  "bindM m f = (\<lambda>w. case m w of Inl e \<Rightarrow> Inl e | Inr (x, w') \<Rightarrow> f x w')"

definition liftE :: "error + 'a \<Rightarrow> 'a M" where
  "liftE v = (\<lambda>w. case v of Inl e \<Rightarrow> Inl e | Inr x \<Rightarrow> Inr (x, w))"

definition advance :: "world \<Rightarrow> world" where
  "advance w = w\<lparr>rng := (\<lambda>i. rng w (Suc i))\<rparr>"

definition randint :: "int \<Rightarrow> int \<Rightarrow> int M" where
  "randint a b = (\<lambda>w. if b < a then Inl ValueError
       else Inr (a + int (rng w 0 mod nat (b - a + 1)), advance w))"

text \<open>\<^verbatim>\<open>random.random() < pct/100\<close>: the draw is read as a percentage in 0..99.\<close>

definition random_pct :: "nat M" where
  "random_pct = (\<lambda>w. Inr (rng w 0 mod 100, advance w))"

definition random_below :: "nat \<Rightarrow> bool M" where
  "random_below pct = (\<lambda>w. Inr (rng w 0 mod 100 < pct, advance w))"

definition randrange :: "nat \<Rightarrow> nat M" where
  "randrange n = (\<lambda>w. if n = 0 then Inl ValueError else Inr (rng w 0 mod n, advance w))"

definition alloc_enemy :: "enemy \<Rightarrow> nat M" where
  "alloc_enemy e = (\<lambda>w. Inr (next_ref w, w\<lparr>heap := (heap w)(next_ref w := e), next_ref := Suc (next_ref w)\<rparr>))"

definition update_enemy :: "nat \<Rightarrow> (enemy \<Rightarrow> enemy) \<Rightarrow> unit M" where
  "update_enemy r f = (\<lambda>w. Inr ((), w\<lparr>heap := (heap w)(r := f (heap w r))\<rparr>))"

definition get_heap :: "(nat \<Rightarrow> enemy) M" where
  "get_heap = (\<lambda>w. Inr (heap w, w))"

fun foldE :: "('s \<Rightarrow> 'a \<Rightarrow> error + 's) \<Rightarrow> 's \<Rightarrow> 'a list \<Rightarrow> error + 's" where
  "foldE f s [] = Inr s"
| "foldE f s (x # xs) = (case f s x of Inl e \<Rightarrow> Inl e | Inr s' \<Rightarrow> foldE f s' xs)"

fun foldM :: "('s \<Rightarrow> 'a \<Rightarrow> 's M) \<Rightarrow> 's \<Rightarrow> 'a list \<Rightarrow> 's M" where
  "foldM f s [] = returnM s"
| "foldM f s (x # xs) = bindM (f s x) (\<lambda>s'. foldM f s' xs)"

text \<open>\<^verbatim>\<open>for _ in range(n)\<close> with a body that threads a state.\<close>

fun repeatM :: "nat \<Rightarrow> ('s \<Rightarrow> 's M) \<Rightarrow> 's \<Rightarrow> 's M" where
  "repeatM 0 f s = returnM s"
| "repeatM (Suc n) f s = bindM (f s) (repeatM n f)"

subsection \<open>numpy indexing\<close>

definition py_index :: "int \<Rightarrow> int \<Rightarrow> error + int" where
  "py_index n i = (if 0 \<le> i \<and> i < n then Inr i
                   else if - n \<le> i \<and> i < 0 then Inr (i + n)
                   else Inl IndexError)"

text \<open>\<^verbatim>\<open>self.grid[y][x] = t\<close> and \<^verbatim>\<open>self.grid[y][x]\<close>; the row is indexed first.\<close>

definition grid_set :: "dungeon \<Rightarrow> int \<Rightarrow> int \<Rightarrow> TileType \<Rightarrow> error + dungeon" where
  "grid_set d x y t =
     (case py_index (height d) y of Inl e \<Rightarrow> Inl e
      | Inr j \<Rightarrow> (case py_index (width d) x of Inl e \<Rightarrow> Inl e
          | Inr i \<Rightarrow> Inr (d\<lparr>grid := (grid d)((i, j) := t)\<rparr>)))"

definition grid_get :: "dungeon \<Rightarrow> int \<Rightarrow> int \<Rightarrow> error + TileType" where
  "grid_get d x y =
     (case py_index (height d) y of Inl e \<Rightarrow> Inl e
      | Inr j \<Rightarrow> (case py_index (width d) x of Inl e \<Rightarrow> Inl e
          | Inr i \<Rightarrow> Inr (grid d (i, j))))"

definition in_bounds :: "dungeon \<Rightarrow> pos \<Rightarrow> bool" where
  "in_bounds d p = (0 \<le> fst p \<and> fst p < width d \<and> 0 \<le> snd p \<and> snd p < height d)"

subsection \<open>Room\<close>

definition Room :: "int \<Rightarrow> int \<Rightarrow> int \<Rightarrow> int \<Rightarrow> room_type \<Rightarrow> room" where
  "Room x y w h t = \<lparr>rx = x, ry = y, rwidth = w, rheight = h, rtype = t, connected = False,
                     renemies = [], ritems = [], rfeatures = []\<rparr>"

definition center :: "room \<Rightarrow> pos" where
  "center r = (rx r + rwidth r div 2, ry r + rheight r div 2)"

definition intersects :: "room \<Rightarrow> room \<Rightarrow> bool" where
  "intersects a b = (rx a \<le> rx b + rwidth b \<and> rx a + rwidth a \<ge> rx b \<and>
                     ry a \<le> ry b + rheight b \<and> ry a + rheight a \<ge> ry b)"

text \<open>
  \<^verbatim>\<open>((c1[0]-c2[0])**2 + (c1[1]-c2[1])**2) ** 0.5\<close>. The source computes it in floating
  point; \<open>distance\<close> is the square root over the reals. The source only ever compares
  a distance with another distance or with a positive integer; the functions below
  make these comparisons on the squares \<open>dist2\<close>, which decide the same
  (\<open>distance_less_iff\<close>, \<open>distance_less_int_iff\<close>) and can be evaluated.
\<close>

definition dist2 :: "pos \<Rightarrow> pos \<Rightarrow> int" where
  "dist2 p q = (fst p - fst q)\<^sup>2 + (snd p - snd q)\<^sup>2"

definition distance :: "pos \<Rightarrow> pos \<Rightarrow> real" where
  "distance p q = sqrt (real_of_int (dist2 p q))"

lemma dist2_nonneg: "0 \<le> dist2 p q"
  by (simp add: dist2_def)

lemma distance_less_iff: "distance p q < distance p' q' \<longleftrightarrow> dist2 p q < dist2 p' q'"
  by (simp add: distance_def)

lemma distance_less_int_iff:
  assumes "0 < m"
  shows "distance p q < real_of_int m \<longleftrightarrow> dist2 p q < m * m"
proof -
  have "real_of_int m = sqrt (real_of_int (m * m))"
    using assms by (simp add: real_sqrt_mult)
  then have "distance p q < real_of_int m \<longleftrightarrow> sqrt (real_of_int (dist2 p q)) < sqrt (real_of_int (m * m))"
    by (simp add: distance_def)
  then show ?thesis by (simp only: real_sqrt_less_iff of_int_less_iff)
qed

definition place_one_enemy :: "int \<Rightarrow> room \<Rightarrow> room M" where
  "place_one_enemy dungeon_level rm =
     bindM (randint (rx rm + 1) (rx rm + rwidth rm - 2)) (\<lambda>x.
     bindM (randint (ry rm + 1) (ry rm + rheight rm - 2)) (\<lambda>y.
     bindM (randint (- 1) 1) (\<lambda>dl.
     bindM (alloc_enemy \<lparr>etype = ENormal, epos = (x, y), elevel = max 1 (dungeon_level + dl)\<rparr>) (\<lambda>r.
     returnM (rm\<lparr>renemies := renemies rm @ [r]\<rparr>)))))"

definition place_enemies :: "room \<Rightarrow> int \<Rightarrow> int \<Rightarrow> room M" where
  "place_enemies rm dungeon_level area =
     (if rtype rm = BossRoom then
        bindM (alloc_enemy \<lparr>etype = EBoss, epos = center rm, elevel = dungeon_level + 2 + area\<rparr>) (\<lambda>r.
        returnM (rm\<lparr>renemies := renemies rm @ [r]\<rparr>))
      else
        (let room_area = rwidth rm * rheight rm;
             base_enemies = max 1 (room_area div 25);
             difficulty_mod = min 3 (max 0 (dungeon_level + area div 2))
         in bindM (randint (max 0 (base_enemies - 1)) (base_enemies + difficulty_mod)) (\<lambda>num_enemies.
            repeatM (nat num_enemies) (place_one_enemy dungeon_level) rm)))"

definition rarity_of_roll :: "nat \<Rightarrow> rarity" where
  "rarity_of_roll roll = (if roll < 60 then Common else if roll < 85 then Uncommon
       else if roll < 95 then Rare else if roll < 99 then Epic else Legendary)"

definition place_items :: "room \<Rightarrow> int \<Rightarrow> room M" where
  "place_items rm dungeon_level =
     (let item_chance = (if rtype rm = BossRoom then 100 else if rtype rm = SpecialRoom then 60 else 30)
      in bindM (random_below item_chance) (\<lambda>hit.
         if hit then
           bindM (randint (rx rm + 1) (rx rm + rwidth rm - 2)) (\<lambda>x.
           bindM (randint (ry rm + 1) (ry rm + rheight rm - 2)) (\<lambda>y.
           bindM random_pct (\<lambda>rarity_roll.
           returnM (rm\<lparr>ritems := ritems rm @
              [\<lparr>itype = rarity_of_roll rarity_roll, ipos = (x, y), ilevel = dungeon_level\<rparr>]\<rparr>))))
         else returnM rm))"

definition feature_types :: "feature_type list" where
  "feature_types = [Altar, Shrine, Fountain, Statue, Library]"

definition add_special_feature :: "room \<Rightarrow> int \<Rightarrow> room M" where
  "add_special_feature rm area =
     (if rtype rm = SpecialRoom then
        bindM (randrange (length feature_types)) (\<lambda>k.
        returnM (rm\<lparr>rfeatures := rfeatures rm @
           [\<lparr>ftype = feature_types ! k, fpos = center rm, farea = area\<rparr>]\<rparr>))
      else returnM rm)"

subsection \<open>Dungeon: construction and room placement\<close>

text \<open>
  \<^verbatim>\<open>Dungeon.__init__\<close>: \<^verbatim>\<open>np.zeros\<close> rejects a negative dimension, and the theme table
  of seven entries is read at \<^verbatim>\<open>min(area_index, 6)\<close>, a Python list index.
\<close>

definition Dungeon :: "int \<Rightarrow> int \<Rightarrow> int \<Rightarrow> int \<Rightarrow> error + dungeon" where
  "Dungeon w h pl area =
     (if h < 0 \<or> w < 0 then Inl ValueError
      else case py_index 7 (min area 6) of Inl e \<Rightarrow> Inl e
        | Inr _ \<Rightarrow> Inr \<lparr>width = w, height = h, player_level = pl, area_index = area,
             grid = (\<lambda>_. WALL), rooms = [], entrance = None, exit_pos = None,
             objects = [], enemies = [], items = []\<rparr>)"

text \<open>The nested \<^verbatim>\<open>for room_y ...: for room_x ...: self.grid[room_y][room_x] = FLOOR\<close>.\<close>

definition carve_room :: "dungeon \<Rightarrow> int \<Rightarrow> int \<Rightarrow> int \<Rightarrow> int \<Rightarrow> error + dungeon" where
  "carve_room d x y w h =
     foldE (\<lambda>d1 room_y. foldE (\<lambda>d2 room_x. grid_set d2 room_x room_y FLOOR) d1 [x..x + w - 1])
       d [y..y + h - 1]"

text \<open>The same loops under the guard \<^verbatim>\<open>0 <= x < self.width and 0 <= y < self.height\<close>.\<close>

definition carve_clipped :: "dungeon \<Rightarrow> int \<Rightarrow> int \<Rightarrow> int \<Rightarrow> int \<Rightarrow> dungeon" where
  "carve_clipped d x y w h =
     fold (\<lambda>room_y d1. fold (\<lambda>room_x d2.
         if in_bounds d2 (room_x, room_y) then d2\<lparr>grid := (grid d2)((room_x, room_y) := FLOOR)\<rparr> else d2)
       [x..x + w - 1] d1) [y..y + h - 1] d"

text \<open>
  The \<^verbatim>\<open>for room in self.rooms\<close> loop of \<^verbatim>\<open>_add_room\<close>: \<open>False\<close> when the loop leaves
  through a \<^verbatim>\<open>break\<close>, \<open>True\<close> when its \<^verbatim>\<open>else\<close> branch runs.
\<close>

fun room_fits :: "room \<Rightarrow> int \<Rightarrow> room list \<Rightarrow> bool" where
  "room_fits new_room min_distance [] = True"
| "room_fits new_room min_distance (r # rs) =
     (if intersects new_room r then False
      else if min_distance > 0 \<and> dist2 (center new_room) (center r) < min_distance * min_distance then False
      else room_fits new_room min_distance rs)"

definition populate_room :: "dungeon \<Rightarrow> room \<Rightarrow> room M" where
  "populate_room d new_room =
     (if rtype new_room \<noteq> Entrance then
        bindM (random_below 80) (\<lambda>monsters.
        bindM (if monsters then place_enemies new_room (player_level d) (area_index d)
               else returnM new_room) (\<lambda>r1.
        bindM (place_items r1 (player_level d)) (\<lambda>r2.
        if rtype r2 = SpecialRoom then add_special_feature r2 (area_index d) else returnM r2)))
      else returnM new_room)"

text \<open>The hundred attempts; \<open>None\<close> when every attempt was rejected.\<close>

fun try_place :: "nat \<Rightarrow> dungeon \<Rightarrow> int \<Rightarrow> int \<Rightarrow> int \<Rightarrow> room_type \<Rightarrow> (dungeon \<times> room) option M" where
  "try_place 0 d w h min_distance t = returnM None"
| "try_place (Suc n) d w h min_distance t =
     bindM (randint 1 (width d - w - 1)) (\<lambda>x.
     bindM (randint 1 (height d - h - 1)) (\<lambda>y.
       if room_fits (Room x y w h t) min_distance (rooms d) then
         bindM (liftE (carve_room d x y w h)) (\<lambda>d1.
         bindM (populate_room d1 (Room x y w h t)) (\<lambda>rm.
         returnM (Some (d1\<lparr>rooms := rooms d1 @ [rm]\<rparr>, rm))))
       else try_place n d w h min_distance t))"

fun try_corners :: "dungeon \<Rightarrow> room_type \<Rightarrow> int \<Rightarrow> pos list \<Rightarrow> error + (dungeon \<times> room) option" where
  "try_corners d t fallback_size [] = Inr None"
| "try_corners d t fallback_size (c # cs) =
     (if list_all (\<lambda>r. \<not> intersects (Room (fst c) (snd c) fallback_size fallback_size t) r) (rooms d) then
        (case carve_room d (fst c) (snd c) fallback_size fallback_size of Inl e \<Rightarrow> Inl e
         | Inr d1 \<Rightarrow> Inr (Some (d1\<lparr>rooms := rooms d1 @ [Room (fst c) (snd c) fallback_size fallback_size t]\<rparr>,
                               Room (fst c) (snd c) fallback_size fallback_size t)))
      else try_corners d t fallback_size cs)"

definition room_size :: "room_type \<Rightarrow> int M" where
  "room_size t = (if t = Entrance \<or> t = Exit then randint (ROOM_MIN_SIZE + 1) (ROOM_MAX_SIZE + 1)
                  else randint ROOM_MIN_SIZE ROOM_MAX_SIZE)"

definition add_room :: "dungeon \<Rightarrow> int \<Rightarrow> room_type \<Rightarrow> (dungeon \<times> room) M" where
  "add_room d min_distance t =
     bindM (room_size t) (\<lambda>w.
     bindM (room_size t) (\<lambda>h.
     bindM (try_place 100 d w h min_distance t) (\<lambda>placed.
       case placed of Some res \<Rightarrow> returnM res
       | None \<Rightarrow>
          (let fallback_size = ROOM_MIN_SIZE;
               corner_options = [(1, 1), (1, height d - fallback_size - 1),
                                 (width d - fallback_size - 1, 1),
                                 (width d - fallback_size - 1, height d - fallback_size - 1)]
           in bindM (liftE (try_corners d t fallback_size corner_options)) (\<lambda>cornered.
                case cornered of Some res \<Rightarrow> returnM res
                | None \<Rightarrow>
                   (let x = width d div 2 - fallback_size div 2;
                        y = height d div 2 - fallback_size div 2
                    in bindM (liftE (carve_room d x y fallback_size fallback_size)) (\<lambda>d1.
                       returnM (d1\<lparr>rooms := rooms d1 @ [Room x y fallback_size fallback_size t]\<rparr>,
                                Room x y fallback_size fallback_size t))))))))"

subsection \<open>Corridors and connectivity\<close>

definition carve_h :: "dungeon \<Rightarrow> int \<Rightarrow> int \<Rightarrow> int \<Rightarrow> error + dungeon" where
  "carve_h d y xa xb = foldE (\<lambda>d1 x. grid_set d1 x y FLOOR) d [min xa xb..max xa xb]"

definition carve_v :: "dungeon \<Rightarrow> int \<Rightarrow> int \<Rightarrow> int \<Rightarrow> error + dungeon" where
  "carve_v d x ya yb = foldE (\<lambda>d1 y. grid_set d1 x y FLOOR) d [min ya yb..max ya yb]"

text \<open>
  The loop over the four neighbours of \<open>point1\<close>: the first one inside the grid that is a
  floor tile becomes a closed door. The reads and the write are guarded by the bounds
  test, so they index the array directly.
\<close>

fun place_door :: "dungeon \<Rightarrow> pos \<Rightarrow> pos list \<Rightarrow> dungeon" where
  "place_door d p [] = d"
| "place_door d p (dl # ds) =
     (let n = (fst p + fst dl, snd p + snd dl) in
      if in_bounds d n \<and> grid d n = FLOOR then
        d\<lparr>grid := (grid d)(n := DOOR),
          objects := objects d @ [\<lparr>otype = ''door'', opos = n, ostate = ''closed''\<rparr>]\<rparr>
      else place_door d p ds)"

definition directions :: "pos list" where
  "directions = [(0, 1), (1, 0), (0, - 1), (- 1, 0)]"

definition room_contains :: "pos \<Rightarrow> room \<Rightarrow> bool" where
  "room_contains p r = (rx r \<le> fst p \<and> fst p \<le> rx r + rwidth r \<and> ry r \<le> snd p \<and> snd p \<le> ry r + rheight r)"

definition create_corridor :: "dungeon \<Rightarrow> pos \<Rightarrow> pos \<Rightarrow> dungeon M" where
  "create_corridor d point1 point2 =
     bindM (random_below 70) (\<lambda>horizontal_first.
     bindM (liftE (if horizontal_first then
                     (case carve_h d (snd point1) (fst point1) (fst point2) of Inl e \<Rightarrow> Inl e
                      | Inr d1 \<Rightarrow> carve_v d1 (fst point2) (snd point1) (snd point2))
                   else
                     (case carve_v d (fst point1) (snd point1) (snd point2) of Inl e \<Rightarrow> Inl e
                      | Inr d1 \<Rightarrow> carve_h d1 (snd point2) (fst point1) (fst point2)))) (\<lambda>d2.
     bindM (random_below 20) (\<lambda>with_door.
     returnM (if with_door \<and> list_ex (room_contains point1) (rooms d2)
              then place_door d2 point1 directions else d2))))"

fun first_index :: "('a \<Rightarrow> bool) \<Rightarrow> 'a list \<Rightarrow> nat option" where
  "first_index P [] = None"
| "first_index P (x # xs) = (if P x then Some 0 else map_option Suc (first_index P xs))"

text \<open>
  The two nested loops that look for the closest (unconnected, connected) pair. Rooms
  are named by their index in \<^verbatim>\<open>self.rooms\<close>; \<open>None\<close> is the initial
  \<^verbatim>\<open>(float('inf'), (None, None))\<close>, and the closest distance is kept as its square.
\<close>

definition closer :: "room list \<Rightarrow> nat \<Rightarrow> (int \<times> nat \<times> nat) option \<Rightarrow> nat \<Rightarrow> (int \<times> nat \<times> nat) option" where
  "closer rs u best c =
     (let dist = dist2 (center (rs ! u)) (center (rs ! c)) in
      case best of None \<Rightarrow> Some (dist, u, c)
      | Some (closest_distance, pair) \<Rightarrow>
          if dist < closest_distance then Some (dist, u, c) else best)"

definition closest_pair :: "room list \<Rightarrow> nat list \<Rightarrow> (int \<times> nat \<times> nat) option" where
  "closest_pair rs unconnected =
     fold (\<lambda>u best. fold (\<lambda>c b. closer rs u b c) (filter (\<lambda>c. connected (rs ! c)) [0..<length rs]) best)
       unconnected None"

definition mark_connected :: "dungeon \<Rightarrow> nat \<Rightarrow> dungeon" where
  "mark_connected d i = d\<lparr>rooms := (rooms d)[i := (rooms d ! i)\<lparr>connected := True\<rparr>]\<rparr>"

text \<open>
  The \<^verbatim>\<open>while unconnected\<close> loop. When no pair is found the body changes nothing and the
  loop repeats for ever; that outcome is the value \<open>Hang\<close>.
\<close>

lemma closer_unconnected:
  "closer rs u best c = Some (dd, u', c') \<Longrightarrow> u' = u \<or> best = Some (dd, u', c')"
  by (auto simp: closer_def Let_def split: option.splits if_splits)

lemma closest_inner_unconnected:
  "fold (\<lambda>c b. closer rs u b c) cs best = Some (dd, u', c') \<Longrightarrow>
     u' = u \<or> best = Some (dd, u', c')"
proof (induction cs arbitrary: best)
  case Nil
  then show ?case by simp
next
  case (Cons c cs)
  from Cons.IH [of "closer rs u best c"] Cons.prems
  have "u' = u \<or> closer rs u best c = Some (dd, u', c')" by simp
  then show ?case using closer_unconnected by blast
qed

lemma closest_outer_unconnected:
  "fold (\<lambda>u best. fold (\<lambda>c b. closer rs u b c) cs best) us best0 = Some (dd, u', c') \<Longrightarrow>
     u' \<in> set us \<or> best0 = Some (dd, u', c')"
proof (induction us arbitrary: best0)
  case Nil
  then show ?case by simp
next
  case (Cons u us)
  from Cons.IH [of "fold (\<lambda>c b. closer rs u b c) cs best0"] Cons.prems
  have "u' \<in> set us \<or> fold (\<lambda>c b. closer rs u b c) cs best0 = Some (dd, u', c')" by simp
  then show ?case using closest_inner_unconnected [of rs u cs best0 dd u' c'] by auto
qed

lemma closest_pair_unconnected:
  "closest_pair rs unconnected = Some (dd, u, c) \<Longrightarrow> u \<in> set unconnected"
  unfolding closest_pair_def using closest_outer_unconnected by fastforce

function connect_loop :: "dungeon \<Rightarrow> nat list \<Rightarrow> dungeon M" where
  "connect_loop d unconnected =
     (if unconnected = [] then returnM d
      else case closest_pair (rooms d) unconnected of
             None \<Rightarrow> (\<lambda>w. Inl Hang)
           | Some (closest_distance, u, c) \<Rightarrow>
               bindM (create_corridor d (center (rooms d ! u)) (center (rooms d ! c))) (\<lambda>d1.
               connect_loop (mark_connected d1 u) (remove1 u unconnected)))"
  by pat_completeness auto
termination
proof (relation "measure (\<lambda>(d, unconnected). length unconnected)")
  show "wf (measure (\<lambda>(d, unconnected). length unconnected))" by simp
next
  fix d :: dungeon and unconnected :: "nat list" and x2 :: "int \<times> nat \<times> nat"
    and closest_distance :: int and y :: "nat \<times> nat" and u c :: nat and d1 :: dungeon
  assume "unconnected \<noteq> []" "closest_pair (rooms d) unconnected = Some x2"
    "(closest_distance, y) = x2" "(u, c) = y"
  then have "u \<in> set unconnected" using closest_pair_unconnected by metis
  then show "((mark_connected d1 u, remove1 u unconnected), (d, unconnected))
      \<in> measure (\<lambda>(d, unconnected). length unconnected)"
    by (simp add: length_remove1) (cases unconnected; simp)
qed

declare connect_loop.simps [simp del]

definition connect_rooms :: "dungeon \<Rightarrow> dungeon M" where
  "connect_rooms d =
     (case (case first_index (\<lambda>r. rtype r = Entrance) (rooms d) of
              Some i \<Rightarrow> Inr i
            | None \<Rightarrow> if rooms d = [] then Inl IndexError else Inr 0) of
        Inl e \<Rightarrow> (\<lambda>w. Inl e)
      | Inr entrance_room \<Rightarrow>
          (let d1 = mark_connected d entrance_room
           in connect_loop d1 (filter (\<lambda>i. \<not> connected (rooms d1 ! i)) [0..<length (rooms d1)])))"

definition populate_dungeon :: "dungeon \<Rightarrow> dungeon" where
  "populate_dungeon d = d\<lparr>enemies := concat (map renemies (rooms d)),
                          items := concat (map ritems (rooms d))\<rparr>"

subsection \<open>Traps\<close>

text \<open>
  One trap: the \<^verbatim>\<open>for _ in range(50)\<close> loop, left by \<^verbatim>\<open>break\<close> once a trap is placed.
  The draws lie in \<open>[1, width - 2] \<times> [1, height - 2]\<close>, so the array is indexed directly.
\<close>

fun place_trap :: "nat \<Rightarrow> dungeon \<Rightarrow> dungeon M" where
  "place_trap 0 d = returnM d"
| "place_trap (Suc n) d =
     bindM (randint 1 (width d - 2)) (\<lambda>x.
     bindM (randint 1 (height d - 2)) (\<lambda>y.
     bindM get_heap (\<lambda>h.
       if grid d (x, y) = FLOOR \<and> Some (x, y) \<noteq> entrance d \<and> Some (x, y) \<noteq> exit_pos d
          \<and> \<not> list_ex (\<lambda>e. epos (h e) = (x, y)) (enemies d)
          \<and> \<not> list_ex (\<lambda>i. ipos i = (x, y)) (items d)
       then returnM (d\<lparr>grid := (grid d)((x, y) := TRAP)\<rparr>)
       else place_trap n d)))"

definition add_traps :: "dungeon \<Rightarrow> dungeon M" where
  "add_traps d = repeatM (nat (2 + area_index d)) (place_trap 50) d"

subsection \<open>Pathfinding\<close>

definition walkable :: "TileType \<Rightarrow> bool" where
  "walkable t = (t = FLOOR \<or> t = DOOR \<or> t = STAIRS_UP \<or> t = STAIRS_DOWN)"

definition get_walkable_neighbors :: "dungeon \<Rightarrow> int \<Rightarrow> int \<Rightarrow> pos list" where
  "get_walkable_neighbors d x y =
     filter (\<lambda>n. in_bounds d n \<and> walkable (grid d n)) (map (\<lambda>dl. (x + fst dl, y + snd dl)) directions)"

text \<open>
  \<open>f_score\<close> is \<^verbatim>\<open>tentative_g + ((n[0]-end[0])**2 + (n[1]-end[1])**2)**0.5\<close>, a float in
  the source and a real here. The search itself, \<open>astar\<close>, takes the priority function
  as a parameter, and everything proved about it holds for every priority function.
\<close>

definition f_score :: "nat \<Rightarrow> pos \<Rightarrow> pos \<Rightarrow> real" where
  "f_score tentative_g neighbor goal = real tentative_g + distance neighbor goal"

type_synonym 'p search = "(pos \<times> 'p) list \<times> (pos \<rightharpoonup> pos) \<times> (pos \<rightharpoonup> nat)"

text \<open>The body of \<^verbatim>\<open>for neighbor in self.get_walkable_neighbors(*current)\<close>.\<close>

definition relax :: "(nat \<Rightarrow> pos \<Rightarrow> pos \<Rightarrow> 'p) \<Rightarrow> pos \<Rightarrow> pos \<Rightarrow> 'p search \<Rightarrow> pos \<Rightarrow> error + 'p search" where
  "relax pri goal current st neighbor =
     (case st of (open_set, came_from, g_score) \<Rightarrow>
        (case g_score current of None \<Rightarrow> Inl KeyError
         | Some gc \<Rightarrow>
            (let tentative_g = gc + 1 in
             if (case g_score neighbor of None \<Rightarrow> True | Some gn \<Rightarrow> tentative_g < gn) then
               Inr (open_set @ [(neighbor, pri tentative_g neighbor goal)],
                    came_from(neighbor \<mapsto> current), g_score(neighbor \<mapsto> tentative_g))
             else Inr st)))"

text \<open>\<^verbatim>\<open>while current in came_from: current = came_from[current]; path.append(current)\<close>.\<close>

partial_function (option) reconstruct :: "(pos \<rightharpoonup> pos) \<Rightarrow> pos \<Rightarrow> pos list \<Rightarrow> pos list option" where
  "reconstruct came_from current path =
     (case came_from current of None \<Rightarrow> Some path
      | Some p \<Rightarrow> reconstruct came_from p (path @ [p]))"

text \<open>
  The \<^verbatim>\<open>while open_set\<close> loop. The outer \<open>option\<close> is \<open>None\<close> when the loop does not
  return; inside, \<open>Inr None\<close> is Python's \<^verbatim>\<open>None\<close> (no path) and \<open>Inr (Some path)\<close> the path.
\<close>

partial_function (option) astar ::
  "(nat \<Rightarrow> pos \<Rightarrow> pos \<Rightarrow> 'p::linorder) \<Rightarrow> dungeon \<Rightarrow> pos \<Rightarrow> 'p search \<Rightarrow> (error + pos list option) option" where
  "astar pri d goal st =
     (case st of (open_set, came_from, g_score) \<Rightarrow>
        if open_set = [] then Some (Inr None)
        else (let sorted = sort_key snd open_set; current = fst (hd sorted) in
          if current = goal then
            Option.bind (reconstruct came_from current [current]) (\<lambda>path. Some (Inr (Some (rev path))))
          else (case foldE (relax pri goal current) (tl sorted, came_from, g_score)
                       (get_walkable_neighbors d (fst current) (snd current)) of
                  Inl e \<Rightarrow> Some (Inl e)
                | Inr st' \<Rightarrow> astar pri d goal st')))"

definition find_path_with ::
  "(nat \<Rightarrow> pos \<Rightarrow> pos \<Rightarrow> 'p::linorder) \<Rightarrow> 'p \<Rightarrow> dungeon \<Rightarrow> pos \<Rightarrow> pos \<Rightarrow> (error + pos list option) option" where
  "find_path_with pri p0 d start goal =
     (if \<not> in_bounds d start \<or> \<not> in_bounds d goal \<or> grid d start = WALL \<or> grid d goal = WALL
      then Some (Inr None)
      else astar pri d goal ([(start, p0)], Map.empty, [start \<mapsto> 0]))"

definition find_path :: "dungeon \<Rightarrow> pos \<Rightarrow> pos \<Rightarrow> (error + pos list option) option" where
  "find_path = find_path_with f_score 0"

subsection \<open>Dungeon.generate\<close>

text \<open>The body of the first \<^verbatim>\<open>for room in side_rooms\<close> loop of the final area.\<close>

definition add_side_room :: "dungeon \<Rightarrow> room \<Rightarrow> dungeon M" where
  "add_side_room d rm =
     (let d1 = carve_clipped d (rx rm) (ry rm) (rwidth rm) (rheight rm) in
      if rtype rm \<noteq> Entrance then
        bindM (place_enemies rm (player_level d) (area_index d)) (\<lambda>r1.
        bindM (place_items r1 (player_level d)) (\<lambda>r2.
        bindM (add_special_feature r2 (area_index d)) (\<lambda>r3.
        returnM (d1\<lparr>rooms := rooms d1 @ [r3]\<rparr>))))
      else returnM (d1\<lparr>rooms := rooms d1 @ [rm]\<rparr>))"

definition stamp :: "dungeon \<Rightarrow> pos option \<Rightarrow> TileType \<Rightarrow> error + dungeon" where
  "stamp d p t = (case p of None \<Rightarrow> Inl TypeError | Some q \<Rightarrow> grid_set d (fst q) (snd q) t)"

definition generate_final_area :: "dungeon \<Rightarrow> dungeon M" where
  "generate_final_area d =
     (let throne_room = Room (width d div 2 - 5) (height d div 2 - 5) 10 10 BossRoom;
          d1 = carve_clipped d (rx throne_room) (ry throne_room) (rwidth throne_room) (rheight throne_room)
      in bindM (alloc_enemy \<lparr>etype = EBoss, epos = center throne_room, elevel = player_level d + 5\<rparr>) (\<lambda>boss.
         let d2 = d1\<lparr>rooms := rooms d1 @ [throne_room\<lparr>renemies := [boss]\<rparr>]\<rparr>;
             side_rooms = [Room (rx throne_room - 8) (ry throne_room) 6 6 SpecialRoom,
                           Room (rx throne_room + rwidth throne_room + 2) (ry throne_room) 6 6 SpecialRoom,
                           Room (rx throne_room) (ry throne_room - 8) 6 6 Entrance]
         in bindM (foldM add_side_room d2 side_rooms) (\<lambda>d3.
            bindM (foldM (\<lambda>dd rm. create_corridor dd (center rm) (center throne_room)) d3 side_rooms) (\<lambda>d4.
            bindM (liftE (stamp (d4\<lparr>entrance := Some (center (side_rooms ! 2))\<rparr>)
                            (Some (center (side_rooms ! 2))) STAIRS_UP)) (\<lambda>d5.
            returnM (populate_dungeon d5))))))"

definition add_regular_room :: "dungeon \<Rightarrow> dungeon M" where
  "add_regular_room d =
     bindM (random_below 20) (\<lambda>special.
     bindM (add_room d 0 (if special then SpecialRoom else Normal)) (\<lambda>res. returnM (fst res)))"

definition generate :: "dungeon \<Rightarrow> dungeon M" where
  "generate d0 =
     (let d = d0\<lparr>grid := (\<lambda>_. WALL)\<rparr> in
      if area_index d = 6 then generate_final_area d
      else
        bindM (randint MIN_ROOMS MAX_ROOMS) (\<lambda>num_rooms.
        bindM (add_room d 0 Entrance) (\<lambda>res1.
        bindM (repeatM (nat (num_rooms - 1 - 1)) add_regular_room
                 ((fst res1)\<lparr>entrance := Some (center (snd res1))\<rparr>)) (\<lambda>d3.
        bindM (add_room d3 (max (width d3) (height d3) div 3) Exit) (\<lambda>res2.
        bindM (connect_rooms ((fst res2)\<lparr>exit_pos := Some (center (snd res2))\<rparr>)) (\<lambda>d6.
        bindM (liftE (stamp d6 (entrance d6) STAIRS_UP)) (\<lambda>d7.
        bindM (liftE (stamp d7 (exit_pos d7) STAIRS_DOWN)) (\<lambda>d8.
        returnM (populate_dungeon d8)))))))))"

subsection \<open>DungeonManager\<close>

definition DungeonManager :: "int \<Rightarrow> int \<Rightarrow> manager" where
  "DungeonManager w h = \<lparr>mwidth = w, mheight = h, dungeons = [], current_area = 0,
     player_pos = None, mplayer_level = 1, heat_level = 0, active_modifiers = []\<rparr>"

definition potential_modifiers :: "modifier list" where
  "potential_modifiers =
     [\<lparr>mname = ''More Enemies'', effect = ''increase_enemies'', min_heat = 1\<rparr>,
      \<lparr>mname = ''Stronger Enemies'', effect = ''stronger_enemies'', min_heat = 2\<rparr>,
      \<lparr>mname = ''Less Health'', effect = ''less_health'', min_heat = 3\<rparr>,
      \<lparr>mname = ''More Traps'', effect = ''more_traps'', min_heat = 4\<rparr>,
      \<lparr>mname = ''Less Items'', effect = ''less_items'', min_heat = 5\<rparr>,
      \<lparr>mname = ''Elite Enemies'', effect = ''elite_enemies'', min_heat = 6\<rparr>,
      \<lparr>mname = ''No Healing'', effect = ''no_healing'', min_heat = 7\<rparr>,
      \<lparr>mname = ''Time Limit'', effect = ''time_limit'', min_heat = 8\<rparr>,
      \<lparr>mname = ''Double Bosses'', effect = ''double_bosses'', min_heat = 9\<rparr>,
      \<lparr>mname = ''Extreme Mode'', effect = ''extreme_mode'', min_heat = 10\<rparr>]"

text \<open>One extra enemy of \<^verbatim>\<open>increase_enemies\<close>: the first room that is neither entrance nor exit.\<close>

definition add_extra_enemy :: "dungeon \<Rightarrow> dungeon M" where
  "add_extra_enemy d =
     (case find (\<lambda>rm. rtype rm \<noteq> Entrance \<and> rtype rm \<noteq> Exit) (rooms d) of
        None \<Rightarrow> returnM d
      | Some rm \<Rightarrow>
          bindM (randint (rx rm + 1) (rx rm + rwidth rm - 2)) (\<lambda>x.
          bindM (randint (ry rm + 1) (ry rm + rheight rm - 2)) (\<lambda>y.
          bindM (randint (- 1) 1) (\<lambda>dl.
          bindM (alloc_enemy \<lparr>etype = ENormal, epos = (x, y), elevel = max 1 (player_level d + dl)\<rparr>) (\<lambda>r.
          returnM (d\<lparr>enemies := enemies d @ [r]\<rparr>))))))"

text \<open>\<^verbatim>\<open>for enemy in dungeon.enemies: enemy["level"] += k\<close>, through the references.\<close>

definition raise_levels :: "int \<Rightarrow> dungeon \<Rightarrow> dungeon M" where
  "raise_levels k d =
     bindM (foldM (\<lambda>u r. update_enemy r (\<lambda>e. e\<lparr>elevel := elevel e + k\<rparr>)) () (enemies d)) (\<lambda>u. returnM d)"

definition pop_random_item :: "dungeon \<Rightarrow> dungeon M" where
  "pop_random_item d =
     (if items d \<noteq> [] then
        bindM (randrange (length (items d))) (\<lambda>k.
        returnM (d\<lparr>items := take k (items d) @ drop (Suc k) (items d)\<rparr>))
      else returnM d)"

definition make_elite :: "dungeon \<Rightarrow> dungeon M" where
  "make_elite d =
     (if enemies d \<noteq> [] then
        bindM (randrange (length (enemies d))) (\<lambda>idx.
        bindM get_heap (\<lambda>h.
        if etype (h (enemies d ! idx)) \<noteq> EBoss then
          bindM (update_enemy (enemies d ! idx) (\<lambda>e. e\<lparr>etype := EElite, elevel := elevel e + 3\<rparr>))
            (\<lambda>u. returnM d)
        else returnM d))
      else returnM d)"

definition second_boss :: "dungeon \<Rightarrow> room \<Rightarrow> dungeon M" where
  "second_boss d rm =
     (if rtype rm = BossRoom then
        bindM get_heap (\<lambda>h.
        case find (\<lambda>r. etype (h r) = EBoss) (renemies rm) of
          None \<Rightarrow> returnM d
        | Some r \<Rightarrow>
            bindM (randint (- 2) 2) (\<lambda>offset_x.
            bindM (randint (- 2) 2) (\<lambda>offset_y.
            bindM (alloc_enemy \<lparr>etype = EBoss,
                                 epos = (fst (center rm) + offset_x, snd (center rm) + offset_y),
                                 elevel = elevel (h r) - 1\<rparr>) (\<lambda>b.
            returnM (d\<lparr>enemies := enemies d @ [b]\<rparr>)))))
      else returnM d)"

definition apply_modifier :: "dungeon \<Rightarrow> modifier \<Rightarrow> dungeon M" where
  "apply_modifier d md =
     (if effect md = ''increase_enemies'' then
        repeatM (length (enemies d) div 2) add_extra_enemy d
      else if effect md = ''stronger_enemies'' then raise_levels 2 d
      else if effect md = ''more_traps'' then bindM (add_traps d) add_traps
      else if effect md = ''less_items'' then repeatM (length (items d) div 2) pop_random_item d
      else if effect md = ''elite_enemies'' then
        repeatM (nat (max 1 (int (length (enemies d)) div 4))) make_elite d
      else if effect md = ''double_bosses'' then foldM second_boss d (rooms d)
      else if effect md = ''extreme_mode'' then
        bindM (add_traps d) (\<lambda>d1.
        bindM (add_traps d1) (\<lambda>d2.
        bindM (raise_levels 3 d2) (\<lambda>d3.
        repeatM (length (items d3) * 3 div 4) pop_random_item d3)))
      else returnM d)"

definition apply_heat_modifiers :: "manager \<Rightarrow> dungeon \<Rightarrow> dungeon M" where
  "apply_heat_modifiers m d = foldM apply_modifier d (active_modifiers m)"

definition generate_area :: "manager \<Rightarrow> int \<Rightarrow> int \<Rightarrow> dungeon M" where
  "generate_area m area pl =
     bindM (liftE (Dungeon (mwidth m) (mheight m) pl area)) (\<lambda>d.
     bindM (generate d) (\<lambda>d1. apply_heat_modifiers m d1))"

definition generate_all_areas :: "manager \<Rightarrow> int \<Rightarrow> manager M" where
  "generate_all_areas m pl =
     bindM (foldM (\<lambda>m1 i. bindM (generate_area m1 i pl) (\<lambda>d. returnM (m1\<lparr>dungeons := dungeons m1 @ [d]\<rparr>)))
              (m\<lparr>dungeons := [], mplayer_level := pl\<rparr>) [0, 1, 2, 3, 4, 5, 6]) (\<lambda>m2.
     case dungeons m2 of [] \<Rightarrow> (\<lambda>w. Inl IndexError)
     | d0 # ds \<Rightarrow> returnM (m2\<lparr>current_area := 0, player_pos := entrance d0\<rparr>))"

definition enter_area :: "manager \<Rightarrow> int \<Rightarrow> manager \<times> bool" where
  "enter_area m area =
     (if 0 \<le> area \<and> area < int (length (dungeons m)) then
        (let m1 = m\<lparr>current_area := area\<rparr> in
         if area = 0 \<or> player_pos m1 = None then
           (m1\<lparr>player_pos := entrance (dungeons m1 ! nat area)\<rparr>, True)
         else if area > current_area m1 then
           (m1\<lparr>player_pos := entrance (dungeons m1 ! nat area)\<rparr>, True)
         else
           (m1\<lparr>player_pos := exit_pos (dungeons m1 ! nat area)\<rparr>, True))
      else (m, False))"

datatype move_result = Blocked | Moved | ItemEvent item | EnemyEvent enemy | TrapEvent

text \<open>
  The \<^verbatim>\<open>for obj in dungeon.objects\<close> loop of a move onto a door tile: the first door
  object at the cell ends the loop; \<open>True\<close> when it was closed and has been opened.
\<close>

fun open_door :: "door list \<Rightarrow> pos \<Rightarrow> door list \<times> bool" where
  "open_door [] p = ([], False)"
| "open_door (obj # objs) p =
     (if otype obj = ''door'' \<and> opos obj = p then
        (if ostate obj = ''closed'' then (obj\<lparr>ostate := ''open''\<rparr> # objs, True) else (obj # objs, False))
      else (obj # fst (open_door objs p), snd (open_door objs p)))"

definition step_on_door :: "dungeon \<Rightarrow> pos \<Rightarrow> dungeon" where
  "step_on_door d p =
     (let res = open_door (objects d) p in
      if snd res then d\<lparr>objects := fst res, grid := (grid d)(p := FLOOR)\<rparr> else d\<lparr>objects := fst res\<rparr>)"

text \<open>
  The part of \<^verbatim>\<open>move_player\<close> from \<^verbatim>\<open># Move player\<close> on; \<open>k\<close> is the position of the
  current dungeon in \<^verbatim>\<open>self.dungeons\<close>, \<open>tile_type\<close> the tile read before a door was opened.
\<close>

definition resolve_move ::
  "(nat \<Rightarrow> enemy) \<Rightarrow> manager \<Rightarrow> nat \<Rightarrow> dungeon \<Rightarrow> pos \<Rightarrow> TileType \<Rightarrow> move_result \<times> manager" where
  "resolve_move h m k d new tile_type =
     (let m1 = m\<lparr>player_pos := Some new\<rparr> in
      case first_index (\<lambda>i. ipos i = new) (items d) of
        Some i \<Rightarrow> (ItemEvent (items d ! i),
                   m1\<lparr>dungeons := (dungeons m1)[k := d\<lparr>items := take i (items d) @ drop (Suc i) (items d)\<rparr>]\<rparr>)
      | None \<Rightarrow>
          (case find (\<lambda>r. epos (h r) = new) (enemies d) of
             Some r \<Rightarrow> (EnemyEvent (h r), m1\<lparr>dungeons := (dungeons m1)[k := d]\<rparr>)
           | None \<Rightarrow>
               if tile_type = TRAP then
                 (TrapEvent, m1\<lparr>dungeons := (dungeons m1)[k := d\<lparr>grid := (grid d)(new := FLOOR)\<rparr>]\<rparr>)
               else (Moved, m1\<lparr>dungeons := (dungeons m1)[k := d]\<rparr>)))"

definition move_player :: "(nat \<Rightarrow> enemy) \<Rightarrow> manager \<Rightarrow> int \<Rightarrow> int \<Rightarrow> error + (move_result \<times> manager)" where
  "move_player h m dx dy =
     (case py_index (int (length (dungeons m))) (current_area m) of Inl e \<Rightarrow> Inl e
      | Inr k \<Rightarrow>
         (case player_pos m of None \<Rightarrow> Inl TypeError
          | Some pp \<Rightarrow>
             (let d = dungeons m ! nat k; new = (fst pp + dx, snd pp + dy) in
              if in_bounds d new \<and> grid d new \<noteq> WALL then
                (let tile_type = grid d new in
                 if tile_type = STAIRS_UP \<and> current_area m > 0 then
                   Inr (Moved, fst (enter_area m (current_area m - 1)))
                 else if tile_type = STAIRS_DOWN \<and> current_area m < int (length (dungeons m)) - 1 then
                   Inr (Moved, fst (enter_area m (current_area m + 1)))
                 else Inr (resolve_move h m (nat k)
                             (if tile_type = DOOR then step_on_door d new else d) new tile_type))
              else Inr (Blocked, m))))"

text \<open>
  \<^verbatim>\<open>increase_heat\<close>: the scan of the table stops (\<^verbatim>\<open>break\<close>) at the first entry whose
  threshold is reached and which is not active yet.
\<close>

definition increase_heat :: "manager \<Rightarrow> int \<Rightarrow> manager M" where
  "increase_heat m amount =
     (let m1 = m\<lparr>heat_level := heat_level m + amount\<rparr> in
      case find (\<lambda>md. min_heat md \<le> heat_level m1 \<and> md \<notin> set (active_modifiers m1)) potential_modifiers of
        None \<Rightarrow> returnM m1
      | Some md \<Rightarrow> generate_all_areas (m1\<lparr>active_modifiers := active_modifiers m1 @ [md]\<rparr>) (mplayer_level m1))"

section \<open>Fixtures for concrete runs\<close>

text \<open>
  A level of five columns and three rows whose middle row holds the tiles \<open>a b c\<close>
  between two wall cells; everything else is wall.
\<close>

definition strip_level :: "TileType \<Rightarrow> TileType \<Rightarrow> TileType \<Rightarrow> dungeon" where
  "strip_level a b c =
     \<lparr>width = 5, height = 3, player_level = 1, area_index = 0,
      grid = (\<lambda>p. if p = (1, 1) then a else if p = (2, 1) then b else if p = (3, 1) then c else WALL),
      rooms = [], entrance = Some (1, 1), exit_pos = Some (3, 1),
      objects = [], enemies = [], items = []\<rparr>"

definition strip_manager :: "dungeon list \<Rightarrow> int \<Rightarrow> pos \<Rightarrow> manager" where
  "strip_manager ds area p =
     \<lparr>mwidth = 5, mheight = 3, dungeons = ds, current_area = area, player_pos = Some p,
      mplayer_level = 1, heat_level = 0, active_modifiers = []\<rparr>"

definition no_enemies :: "nat \<Rightarrow> enemy" where
  "no_enemies = (\<lambda>r. \<lparr>etype = ENormal, epos = (0, 0), elevel = 0\<rparr>)"

section \<open>Moving the player\<close>

text \<open>
  C5. A move whose target cell lies outside the level or is a wall tile returns the
  blocked result (\<^verbatim>\<open>False\<close>) and leaves the whole manager as it was: player
  coordinate, current area, heat, and every level with its grid, items, enemies and doors.
  The enemy heap is only read by \<open>move_player\<close>.
\<close>

theorem move_player_blocked:
  assumes "0 \<le> current_area m" and "current_area m < int (length (dungeons m))"
    and "player_pos m = Some pp"
    and "\<not> in_bounds (dungeons m ! nat (current_area m)) (fst pp + dx, snd pp + dy)
         \<or> grid (dungeons m ! nat (current_area m)) (fst pp + dx, snd pp + dy) = WALL"
  shows "move_player h m dx dy = Inr (Blocked, m)"
  using assms by (auto simp: move_player_def py_index_def Let_def)

theorem move_player_blocked_witness:
  "move_player no_enemies (strip_manager [strip_level FLOOR FLOOR FLOOR] 0 (1, 1)) (- 1) 0
     = Inr (Blocked, strip_manager [strip_level FLOOR FLOOR FLOOR] 0 (1, 1))
   \<and> move_player no_enemies (strip_manager [strip_level FLOOR FLOOR FLOOR] 0 (0, 1)) (- 1) 0
     = Inr (Blocked, strip_manager [strip_level FLOOR FLOOR FLOOR] 0 (0, 1))"
proof -
  have wall: "move_player no_enemies (strip_manager [strip_level FLOOR FLOOR FLOOR] 0 (1, 1)) (- 1) 0
     = Inr (Blocked, strip_manager [strip_level FLOOR FLOOR FLOOR] 0 (1, 1))"
    by (rule move_player_blocked [where pp = "(1, 1)"])
       (simp_all add: strip_manager_def strip_level_def in_bounds_def)
  have outside: "move_player no_enemies (strip_manager [strip_level FLOOR FLOOR FLOOR] 0 (0, 1)) (- 1) 0
     = Inr (Blocked, strip_manager [strip_level FLOOR FLOOR FLOOR] 0 (0, 1))"
    by (rule move_player_blocked [where pp = "(0, 1)"])
       (simp_all add: strip_manager_def strip_level_def in_bounds_def)
  from wall outside show ?thesis by simp
qed

text \<open>
  C10. A move onto a stairs-up tile in area 0, or onto a stairs-down tile in the last
  area (index \<open>length dungeons - 1\<close>, which is 6 in the world of seven areas), makes no
  transition: it is resolved as an ordinary move (\<open>resolve_move\<close>), the current area
  index is unchanged and the player stands on the stairs cell.
\<close>

theorem move_player_stairs_at_world_ends:
  assumes "0 \<le> current_area m" and "current_area m < int (length (dungeons m))"
    and "player_pos m = Some pp"
    and "in_bounds (dungeons m ! nat (current_area m)) (fst pp + dx, snd pp + dy)"
    and "(grid (dungeons m ! nat (current_area m)) (fst pp + dx, snd pp + dy) = STAIRS_UP
            \<and> current_area m = 0)
         \<or> (grid (dungeons m ! nat (current_area m)) (fst pp + dx, snd pp + dy) = STAIRS_DOWN
            \<and> current_area m = int (length (dungeons m)) - 1)"
  shows "move_player h m dx dy =
           Inr (resolve_move h m (nat (current_area m)) (dungeons m ! nat (current_area m))
                  (fst pp + dx, snd pp + dy)
                  (grid (dungeons m ! nat (current_area m)) (fst pp + dx, snd pp + dy)))
         \<and> (\<exists>res m'. move_player h m dx dy = Inr (res, m')
               \<and> current_area m' = current_area m
               \<and> player_pos m' = Some (fst pp + dx, snd pp + dy))"
proof -
  let ?d = "dungeons m ! nat (current_area m)"
  let ?new = "(fst pp + dx, snd pp + dy)"
  have idx: "py_index (int (length (dungeons m))) (current_area m) = Inr (current_area m)"
    using assms(1,2) by (simp add: py_index_def)
  have tile: "grid ?d ?new \<noteq> WALL" "grid ?d ?new \<noteq> DOOR"
    using assms(5) by auto
  have no_up: "\<not> (grid ?d ?new = STAIRS_UP \<and> current_area m > 0)"
    using assms(5) by auto
  have no_down: "\<not> (grid ?d ?new = STAIRS_DOWN \<and> current_area m < int (length (dungeons m)) - 1)"
    using assms(5) by auto
  have run: "move_player h m dx dy = Inr (resolve_move h m (nat (current_area m)) ?d ?new (grid ?d ?new))"
    unfolding move_player_def idx using assms(3,4) tile no_up no_down
    by (auto simp: Let_def)
  have area: "current_area (snd (resolve_move h m k d new t)) = current_area m" for k d new t
    by (simp add: resolve_move_def Let_def split: option.splits)
  have ppos: "player_pos (snd (resolve_move h m k d new t)) = Some new" for k d new t
    by (simp add: resolve_move_def Let_def split: option.splits)
  show ?thesis
    using run area [of "nat (current_area m)" ?d ?new "grid ?d ?new"]
      ppos [of "nat (current_area m)" ?d ?new "grid ?d ?new"]
    by (cases "resolve_move h m (nat (current_area m)) ?d ?new (grid ?d ?new)") auto
qed

definition seven_levels :: "dungeon list" where
  "seven_levels = replicate 7 (strip_level STAIRS_UP FLOOR STAIRS_DOWN)"

theorem move_player_stairs_at_world_ends_witness:
  "(\<exists>res m'. move_player no_enemies (strip_manager seven_levels 6 (2, 1)) 1 0 = Inr (res, m')
       \<and> current_area m' = 6 \<and> player_pos m' = Some (3, 1))
   \<and> (\<exists>res m'. move_player no_enemies (strip_manager seven_levels 0 (2, 1)) (- 1) 0 = Inr (res, m')
       \<and> current_area m' = 0 \<and> player_pos m' = Some (1, 1))"
proof -
  let ?lvl = "strip_level STAIRS_UP FLOOR STAIRS_DOWN"
  let ?bottom = "strip_manager seven_levels 6 (2, 1)"
  let ?top = "strip_manager seven_levels 0 (2, 1)"
  have lvl6: "dungeons ?bottom ! nat (current_area ?bottom) = ?lvl"
    by (simp add: strip_manager_def seven_levels_def)
  have lvl0: "dungeons ?top ! nat (current_area ?top) = ?lvl"
    by (simp add: strip_manager_def seven_levels_def)
  have b1: "0 \<le> current_area ?bottom" "current_area ?bottom < int (length (dungeons ?bottom))"
    "player_pos ?bottom = Some (2, 1)"
    by (simp_all add: strip_manager_def seven_levels_def)
  have b4: "in_bounds (dungeons ?bottom ! nat (current_area ?bottom)) (fst (2, 1) + 1, snd (2, 1) + 0)"
    unfolding lvl6 by (simp add: strip_level_def in_bounds_def)
  have b5: "(grid (dungeons ?bottom ! nat (current_area ?bottom)) (fst (2, 1) + 1, snd (2, 1) + 0) = STAIRS_UP
              \<and> current_area ?bottom = 0)
            \<or> (grid (dungeons ?bottom ! nat (current_area ?bottom)) (fst (2, 1) + 1, snd (2, 1) + 0) = STAIRS_DOWN
              \<and> current_area ?bottom = int (length (dungeons ?bottom)) - 1)"
    unfolding lvl6 by (simp add: strip_level_def strip_manager_def seven_levels_def)
  have t1: "0 \<le> current_area ?top" "current_area ?top < int (length (dungeons ?top))"
    "player_pos ?top = Some (2, 1)"
    by (simp_all add: strip_manager_def seven_levels_def)
  have t4: "in_bounds (dungeons ?top ! nat (current_area ?top)) (fst (2, 1) + (- 1), snd (2, 1) + 0)"
    unfolding lvl0 by (simp add: strip_level_def in_bounds_def)
  have t5: "(grid (dungeons ?top ! nat (current_area ?top)) (fst (2, 1) + (- 1), snd (2, 1) + 0) = STAIRS_UP
              \<and> current_area ?top = 0)
            \<or> (grid (dungeons ?top ! nat (current_area ?top)) (fst (2, 1) + (- 1), snd (2, 1) + 0) = STAIRS_DOWN
              \<and> current_area ?top = int (length (dungeons ?top)) - 1)"
    unfolding lvl0 by (simp add: strip_level_def strip_manager_def)
  have area6: "current_area ?bottom = 6" and area0: "current_area ?top = 0"
    by (simp_all add: strip_manager_def)
  from move_player_stairs_at_world_ends [OF b1 b4 b5, of no_enemies, THEN conjunct2]
  have down: "\<exists>res m'. move_player no_enemies ?bottom 1 0 = Inr (res, m')
       \<and> current_area m' = 6 \<and> player_pos m' = Some (3, 1)"
    unfolding area6 by simp
  from move_player_stairs_at_world_ends [OF t1 t4 t5, of no_enemies, THEN conjunct2]
  have up: "\<exists>res m'. move_player no_enemies ?top (- 1) 0 = Inr (res, m')
       \<and> current_area m' = 0 \<and> player_pos m' = Some (1, 1)"
    unfolding area0 by simp
  from down up show ?thesis by simp
qed

section \<open>Entering an area\<close>

text \<open>
  \<open>enter_area\<close> assigns \<^verbatim>\<open>self.current_area = area_index\<close> before it compares
  \<^verbatim>\<open>area_index > self.current_area\<close>, so the branch commented
  \<^verbatim>\<open># Going down - place at entrance\<close> is never taken: with a prior position and a
  target other than 0 the player is put on the target's exit, whatever the direction.
\<close>

lemma enter_area_nonzero_exit:
  assumes "0 < area" and "area < int (length (dungeons m))" and "player_pos m \<noteq> None"
  shows "enter_area m area =
           (m\<lparr>current_area := area, player_pos := exit_pos (dungeons m ! nat area)\<rparr>, True)"
  using assms by (auto simp: enter_area_def Let_def)

text \<open>
  C2 at a concrete input: from area 0 of a two-area world, with the player standing on
  \<open>(2, 1)\<close>, entering area 1 (the higher index) puts the player on the exit \<open>(3, 1)\<close>
  of area 1 and not on its entrance \<open>(1, 1)\<close>.
\<close>

theorem enter_area_descending_lands_on_exit:
  "player_pos (fst (enter_area (strip_manager [strip_level FLOOR FLOOR FLOOR,
                                                 strip_level FLOOR FLOOR FLOOR] 0 (2, 1)) 1))
     = exit_pos (strip_level FLOOR FLOOR FLOOR)
   \<and> exit_pos (strip_level FLOOR FLOOR FLOOR) = Some (3, 1)
   \<and> entrance (strip_level FLOOR FLOOR FLOOR) = Some (1, 1)"
  by (simp add: enter_area_def strip_manager_def strip_level_def Let_def)

section \<open>Rules for running the model on concrete inputs\<close>






lemma place_trap_apply:
  "place_trap 0 d w = Inr (d, w)"
  "place_trap (Suc n) d w =
     bindM (randint 1 (width d - 2)) (\<lambda>x.
     bindM (randint 1 (height d - 2)) (\<lambda>y.
     bindM get_heap (\<lambda>h.
       if grid d (x, y) = FLOOR \<and> Some (x, y) \<noteq> entrance d \<and> Some (x, y) \<noteq> exit_pos d
          \<and> \<not> list_ex (\<lambda>e. epos (h e) = (x, y)) (enemies d)
          \<and> \<not> list_ex (\<lambda>i. ipos i = (x, y)) (items d)
       then returnM (d\<lparr>grid := (grid d)((x, y) := TRAP)\<rparr>)
       else place_trap n d))) w"
  "place_trap (numeral k) d w =
     bindM (randint 1 (width d - 2)) (\<lambda>x.
     bindM (randint 1 (height d - 2)) (\<lambda>y.
     bindM get_heap (\<lambda>h.
       if grid d (x, y) = FLOOR \<and> Some (x, y) \<noteq> entrance d \<and> Some (x, y) \<noteq> exit_pos d
          \<and> \<not> list_ex (\<lambda>e. epos (h e) = (x, y)) (enemies d)
          \<and> \<not> list_ex (\<lambda>i. ipos i = (x, y)) (items d)
       then returnM (d\<lparr>grid := (grid d)((x, y) := TRAP)\<rparr>)
       else place_trap (pred_numeral k) d))) w"
  by (simp_all add: returnM_def numeral_eq_Suc)
















section \<open>Reasoning about runs\<close>


lemma returnM_Inr [simp]: "returnM x w = Inr (y, w') \<longleftrightarrow> y = x \<and> w' = w"
  by (auto simp: returnM_def)


lemma heap_advance [simp]: "heap (advance w) = heap w"
  by (simp add: advance_def)

lemma next_ref_advance [simp]: "next_ref (advance w) = next_ref w"
  by (simp add: advance_def)

lemma get_heap_Inr [simp]: "get_heap w = Inr (h, w') \<longleftrightarrow> h = heap w \<and> w' = w"
  by (auto simp: get_heap_def)

section \<open>Traps\<close>

definition changed_cells :: "dungeon \<Rightarrow> dungeon \<Rightarrow> pos set" where
  "changed_cells d d' = {p. grid d' p \<noteq> grid d p}"



lemma changed_cells_refl [simp]: "changed_cells d d = {}"
  by (simp add: changed_cells_def)

lemma changed_cells_one [simp]:
  "changed_cells d (d\<lparr>grid := (grid d)(p := t)\<rparr>) = (if grid d p = t then {} else {p})"
  by (auto simp: changed_cells_def)







section \<open>The pathfinder on a start tile that is neither wall nor walkable\<close>

text \<open>
  C6 at a concrete input. \<open>find_path\<close> is commented
  \<^verbatim>\<open># If start or end aren't walkable, return None\<close>, but it only rejects endpoints that
  are out of bounds or wall tiles. From a start on a trap tile (not walkable: the
  neighbour test of \<open>get_walkable_neighbors\<close> would not admit it) to the floor tile
  next to it, it returns a path whose first cell is the trap tile.
\<close>

theorem find_path_from_trap_tile:
  "find_path (strip_level TRAP FLOOR WALL) (1, 1) (2, 1) = Some (Inr (Some [(1, 1), (2, 1)]))
   \<and> grid (strip_level TRAP FLOOR WALL) (1, 1) = TRAP
   \<and> \<not> walkable (grid (strip_level TRAP FLOOR WALL) (1, 1))"
proof -
  let ?d = "strip_level TRAP FLOOR WALL"
  have n1: "get_walkable_neighbors ?d 1 1 = [(2, 1)]"
    by (simp add: get_walkable_neighbors_def directions_def strip_level_def in_bounds_def walkable_def)
  have s1: "astar f_score ?d (2, 1) ([((1, 1), 0)], Map.empty, [(1, 1) \<mapsto> 0])
      = astar f_score ?d (2, 1) ([((2, 1), f_score 1 (2, 1) (2, 1))], [(2, 1) \<mapsto> (1, 1)],
          [(1, 1) \<mapsto> 0, (2, 1) \<mapsto> 1])"
    by (subst astar.simps) (simp add: n1 relax_def Let_def)
  have s2: "astar f_score ?d (2, 1) ([((2, 1), f_score 1 (2, 1) (2, 1))], [(2, 1) \<mapsto> (1, 1)],
          [(1, 1) \<mapsto> 0, (2, 1) \<mapsto> 1])
      = Some (Inr (Some [(1, 1), (2, 1)]))"
    by (subst astar.simps) (simp add: reconstruct.simps Let_def)
  have "find_path ?d (1, 1) (2, 1) = Some (Inr (Some [(1, 1), (2, 1)]))"
    unfolding find_path_def find_path_with_def s1 [symmetric] s2 [symmetric]
    by (simp add: strip_level_def in_bounds_def)
  then show ?thesis by (simp add: strip_level_def walkable_def)
qed

section \<open>Carving in closed form\<close>

definition paint :: "dungeon \<Rightarrow> (pos \<Rightarrow> bool) \<Rightarrow> TileType \<Rightarrow> dungeon" where
  "paint d S t = d\<lparr>grid := (\<lambda>p. if S p then t else grid d p)\<rparr>"

lemma paint_fields [simp]:
  "width (paint d S t) = width d" "height (paint d S t) = height d"
  "player_level (paint d S t) = player_level d" "area_index (paint d S t) = area_index d"
  "rooms (paint d S t) = rooms d" "entrance (paint d S t) = entrance d"
  "exit_pos (paint d S t) = exit_pos d" "objects (paint d S t) = objects d"
  "enemies (paint d S t) = enemies d" "items (paint d S t) = items d"
  by (simp_all add: paint_def)

lemma grid_paint: "grid (paint d S t) p = (if S p then t else grid d p)"
  by (simp add: paint_def)

lemma in_bounds_paint [simp]: "in_bounds (paint d S t) p = in_bounds d p"
  by (simp add: in_bounds_def)

lemma paint_nothing: "(\<And>p. \<not> S p) \<Longrightarrow> paint d S t = d"
  by (simp add: paint_def)

lemma paint_paint: "paint (paint d S t) S' t = paint d (\<lambda>p. S p \<or> S' p) t"
  by (auto simp: paint_def fun_eq_iff)

lemma paint_cong: "(\<And>p. S p = S' p) \<Longrightarrow> paint d S t = paint d S' t"
  by (simp add: paint_def)

lemma grid_set_in_bounds:
  "in_bounds d (x, y) \<Longrightarrow> grid_set d x y t = Inr (paint d (\<lambda>p. p = (x, y)) t)"
  by (auto simp: grid_set_def py_index_def in_bounds_def paint_def fun_eq_iff)

lemma paint_row_fold:
  assumes "0 \<le> y" "y < height d" "\<forall>x \<in> set xs. 0 \<le> x \<and> x < width d"
  shows "foldE (\<lambda>d2 x. grid_set d2 x y t) d xs = Inr (paint d (\<lambda>p. snd p = y \<and> fst p \<in> set xs) t)"
  using assms
proof (induction xs arbitrary: d)
  case Nil
  then show ?case by (simp add: paint_nothing)
next
  case (Cons x xs)
  have inb: "in_bounds d (x, y)" using Cons.prems by (simp add: in_bounds_def)
  have step: "grid_set d x y t = Inr (paint d (\<lambda>p. p = (x, y)) t)"
    by (rule grid_set_in_bounds [OF inb])
  have "foldE (\<lambda>d2 x. grid_set d2 x y t) (paint d (\<lambda>p. p = (x, y)) t) xs
          = Inr (paint (paint d (\<lambda>p. p = (x, y)) t) (\<lambda>p. snd p = y \<and> fst p \<in> set xs) t)"
    using Cons.prems by (intro Cons.IH) simp_all
  also have "paint (paint d (\<lambda>p. p = (x, y)) t) (\<lambda>p. snd p = y \<and> fst p \<in> set xs) t
          = paint d (\<lambda>p. snd p = y \<and> fst p \<in> set (x # xs)) t"
    unfolding paint_paint by (rule paint_cong) auto
  finally show ?case using step by simp
qed

lemma paint_col_fold:
  assumes "0 \<le> x" "x < width d" "\<forall>y \<in> set ys. 0 \<le> y \<and> y < height d"
  shows "foldE (\<lambda>d2 y. grid_set d2 x y t) d ys = Inr (paint d (\<lambda>p. fst p = x \<and> snd p \<in> set ys) t)"
  using assms
proof (induction ys arbitrary: d)
  case Nil
  then show ?case by (simp add: paint_nothing)
next
  case (Cons y ys)
  have inb: "in_bounds d (x, y)" using Cons.prems by (simp add: in_bounds_def)
  have step: "grid_set d x y t = Inr (paint d (\<lambda>p. p = (x, y)) t)"
    by (rule grid_set_in_bounds [OF inb])
  have "foldE (\<lambda>d2 y. grid_set d2 x y t) (paint d (\<lambda>p. p = (x, y)) t) ys
          = Inr (paint (paint d (\<lambda>p. p = (x, y)) t) (\<lambda>p. fst p = x \<and> snd p \<in> set ys) t)"
    using Cons.prems by (intro Cons.IH) simp_all
  also have "paint (paint d (\<lambda>p. p = (x, y)) t) (\<lambda>p. fst p = x \<and> snd p \<in> set ys) t
          = paint d (\<lambda>p. fst p = x \<and> snd p \<in> set (y # ys)) t"
    unfolding paint_paint by (rule paint_cong) auto
  finally show ?case using step by simp
qed

lemma paint_rows_fold:
  assumes "\<forall>x \<in> set xs. 0 \<le> x \<and> x < width d" "\<forall>y \<in> set ys. 0 \<le> y \<and> y < height d"
  shows "foldE (\<lambda>d1 y. foldE (\<lambda>d2 x. grid_set d2 x y t) d1 xs) d ys
           = Inr (paint d (\<lambda>p. snd p \<in> set ys \<and> fst p \<in> set xs) t)"
  using assms
proof (induction ys arbitrary: d)
  case Nil
  then show ?case by (simp add: paint_nothing)
next
  case (Cons y ys)
  have row: "foldE (\<lambda>d2 x. grid_set d2 x y t) d xs = Inr (paint d (\<lambda>p. snd p = y \<and> fst p \<in> set xs) t)"
    using Cons.prems by (intro paint_row_fold) simp_all
  have "foldE (\<lambda>d1 y. foldE (\<lambda>d2 x. grid_set d2 x y t) d1 xs) (paint d (\<lambda>p. snd p = y \<and> fst p \<in> set xs) t) ys
          = Inr (paint (paint d (\<lambda>p. snd p = y \<and> fst p \<in> set xs) t) (\<lambda>p. snd p \<in> set ys \<and> fst p \<in> set xs) t)"
    using Cons.prems by (intro Cons.IH) simp_all
  also have "paint (paint d (\<lambda>p. snd p = y \<and> fst p \<in> set xs) t) (\<lambda>p. snd p \<in> set ys \<and> fst p \<in> set xs) t
          = paint d (\<lambda>p. snd p \<in> set (y # ys) \<and> fst p \<in> set xs) t"
    unfolding paint_paint by (rule paint_cong) auto
  finally show ?case using row by simp
qed

definition in_rect :: "int \<Rightarrow> int \<Rightarrow> int \<Rightarrow> int \<Rightarrow> pos \<Rightarrow> bool" where
  "in_rect x y w h p = (x \<le> fst p \<and> fst p < x + w \<and> y \<le> snd p \<and> snd p < y + h)"

lemma carve_room_closed:
  assumes "0 \<le> x" "x + w \<le> width d" "0 \<le> y" "y + h \<le> height d"
  shows "carve_room d x y w h = Inr (paint d (in_rect x y w h) FLOOR)"
proof -
  have "carve_room d x y w h = Inr (paint d (\<lambda>p. snd p \<in> set [y..y + h - 1] \<and> fst p \<in> set [x..x + w - 1]) FLOOR)"
    unfolding carve_room_def using assms by (intro paint_rows_fold) auto
  also have "paint d (\<lambda>p. snd p \<in> set [y..y + h - 1] \<and> fst p \<in> set [x..x + w - 1]) FLOOR
           = paint d (in_rect x y w h) FLOOR"
    by (rule paint_cong) (auto simp: in_rect_def)
  finally show ?thesis .
qed

lemma carve_h_closed:
  assumes "0 \<le> y" "y < height d" "0 \<le> min xa xb" "max xa xb < width d"
  shows "carve_h d y xa xb = Inr (paint d (\<lambda>p. snd p = y \<and> min xa xb \<le> fst p \<and> fst p \<le> max xa xb) FLOOR)"
proof -
  have "carve_h d y xa xb = Inr (paint d (\<lambda>p. snd p = y \<and> fst p \<in> set [min xa xb..max xa xb]) FLOOR)"
    unfolding carve_h_def using assms by (intro paint_row_fold) auto
  also have "paint d (\<lambda>p. snd p = y \<and> fst p \<in> set [min xa xb..max xa xb]) FLOOR
           = paint d (\<lambda>p. snd p = y \<and> min xa xb \<le> fst p \<and> fst p \<le> max xa xb) FLOOR"
    by (rule paint_cong) auto
  finally show ?thesis .
qed

lemma carve_v_closed:
  assumes "0 \<le> x" "x < width d" "0 \<le> min ya yb" "max ya yb < height d"
  shows "carve_v d x ya yb = Inr (paint d (\<lambda>p. fst p = x \<and> min ya yb \<le> snd p \<and> snd p \<le> max ya yb) FLOOR)"
proof -
  have "carve_v d x ya yb = Inr (paint d (\<lambda>p. fst p = x \<and> snd p \<in> set [min ya yb..max ya yb]) FLOOR)"
    unfolding carve_v_def using assms by (intro paint_col_fold) auto
  also have "paint d (\<lambda>p. fst p = x \<and> snd p \<in> set [min ya yb..max ya yb]) FLOOR
           = paint d (\<lambda>p. fst p = x \<and> min ya yb \<le> snd p \<and> snd p \<le> max ya yb) FLOOR"
    by (rule paint_cong) auto
  finally show ?thesis .
qed

lemma clipped_row_fold:
  "fold (\<lambda>room_x d2. if in_bounds d2 (room_x, y) then d2\<lparr>grid := (grid d2)((room_x, y) := t)\<rparr> else d2) xs d
     = paint d (\<lambda>p. snd p = y \<and> fst p \<in> set xs \<and> in_bounds d p) t"
proof (induction xs arbitrary: d)
  case Nil
  then show ?case by (simp add: paint_nothing)
next
  case (Cons x xs)
  have one: "(if in_bounds d (x, y) then d\<lparr>grid := (grid d)((x, y) := t)\<rparr> else d)
               = paint d (\<lambda>p. p = (x, y) \<and> in_bounds d p) t"
    by (auto simp: paint_def fun_eq_iff)
  have "fold (\<lambda>room_x d2. if in_bounds d2 (room_x, y) then d2\<lparr>grid := (grid d2)((room_x, y) := t)\<rparr> else d2) (x # xs) d
      = paint (paint d (\<lambda>p. p = (x, y) \<and> in_bounds d p) t)
           (\<lambda>p. snd p = y \<and> fst p \<in> set xs \<and> in_bounds (paint d (\<lambda>p. p = (x, y) \<and> in_bounds d p) t) p) t"
    by (simp only: fold_simps one Cons.IH)
  also have "\<dots> = paint d (\<lambda>p. snd p = y \<and> fst p \<in> set (x # xs) \<and> in_bounds d p) t"
    unfolding paint_paint by (rule paint_cong) auto
  finally show ?case .
qed

lemma carve_clipped_closed:
  "carve_clipped d x y w h = paint d (\<lambda>p. in_rect x y w h p \<and> in_bounds d p) FLOOR"
proof -
  have rows: "fold (\<lambda>room_y d1. paint d1 (\<lambda>p. snd p = room_y \<and> fst p \<in> set xs \<and> in_bounds d1 p) FLOOR) ys d
       = paint d (\<lambda>p. snd p \<in> set ys \<and> fst p \<in> set xs \<and> in_bounds d p) FLOOR" for xs ys d
  proof (induction ys arbitrary: d)
    case Nil
    then show ?case by (simp add: paint_nothing)
  next
    case (Cons y ys)
    have "fold (\<lambda>room_y d1. paint d1 (\<lambda>p. snd p = room_y \<and> fst p \<in> set xs \<and> in_bounds d1 p) FLOOR) (y # ys) d
       = paint (paint d (\<lambda>p. snd p = y \<and> fst p \<in> set xs \<and> in_bounds d p) FLOOR)
           (\<lambda>p. snd p \<in> set ys \<and> fst p \<in> set xs
                \<and> in_bounds (paint d (\<lambda>p. snd p = y \<and> fst p \<in> set xs \<and> in_bounds d p) FLOOR) p) FLOOR"
      by (simp only: fold_simps Cons.IH)
    also have "\<dots> = paint d (\<lambda>p. snd p \<in> set (y # ys) \<and> fst p \<in> set xs \<and> in_bounds d p) FLOOR"
      unfolding paint_paint by (rule paint_cong) auto
    finally show ?case .
  qed
  have "carve_clipped d x y w h
      = paint d (\<lambda>p. snd p \<in> set [y..y + h - 1] \<and> fst p \<in> set [x..x + w - 1] \<and> in_bounds d p) FLOOR"
    unfolding carve_clipped_def clipped_row_fold by (rule rows)
  also have "\<dots> = paint d (\<lambda>p. in_rect x y w h p \<and> in_bounds d p) FLOOR"
    by (rule paint_cong) (auto simp: in_rect_def)
  finally show ?thesis .
qed

section \<open>Rules for running the generator\<close>

lemma try_place_apply:
  "try_place 0 d wd h md t w = Inr (None, w)"
  "try_place (Suc n) d wd h md t w =
     bindM (randint 1 (width d - wd - 1)) (\<lambda>x.
     bindM (randint 1 (height d - h - 1)) (\<lambda>y.
       if room_fits (Room x y wd h t) md (rooms d) then
         bindM (liftE (carve_room d x y wd h)) (\<lambda>d1.
         bindM (populate_room d1 (Room x y wd h t)) (\<lambda>rm.
         returnM (Some (d1\<lparr>rooms := rooms d1 @ [rm]\<rparr>, rm))))
       else try_place n d wd h md t)) w"
  "try_place (numeral k) d wd h md t w =
     bindM (randint 1 (width d - wd - 1)) (\<lambda>x.
     bindM (randint 1 (height d - h - 1)) (\<lambda>y.
       if room_fits (Room x y wd h t) md (rooms d) then
         bindM (liftE (carve_room d x y wd h)) (\<lambda>d1.
         bindM (populate_room d1 (Room x y wd h t)) (\<lambda>rm.
         returnM (Some (d1\<lparr>rooms := rooms d1 @ [rm]\<rparr>, rm))))
       else try_place (pred_numeral k) d wd h md t)) w"
  by (simp_all add: returnM_def numeral_eq_Suc)

lemma connect_loop_apply:
  "connect_loop d unconnected w =
     (if unconnected = [] then Inr (d, w)
      else case closest_pair (rooms d) unconnected of
             None \<Rightarrow> Inl Hang
           | Some p \<Rightarrow>
               bindM (create_corridor d (center (rooms d ! fst (snd p))) (center (rooms d ! snd (snd p)))) (\<lambda>d1.
               connect_loop (mark_connected d1 (fst (snd p))) (remove1 (fst (snd p)) unconnected)) w)"
  by (subst connect_loop.simps) (simp add: returnM_def split: option.splits prod.splits)

lemma place_one_enemy_apply:
  "place_one_enemy dl rm w =
     bindM (randint (rx rm + 1) (rx rm + rwidth rm - 2)) (\<lambda>x.
     bindM (randint (ry rm + 1) (ry rm + rheight rm - 2)) (\<lambda>y.
     bindM (randint (- 1) 1) (\<lambda>k.
     bindM (alloc_enemy \<lparr>etype = ENormal, epos = (x, y), elevel = max 1 (dl + k)\<rparr>) (\<lambda>r.
     returnM (rm\<lparr>renemies := renemies rm @ [r]\<rparr>))))) w"
  by (simp add: place_one_enemy_def)

lemmas run_model =
  place_enemies_def [THEN fun_cong] place_items_def [THEN fun_cong] add_special_feature_def [THEN fun_cong]
  populate_room_def [THEN fun_cong] room_size_def [THEN fun_cong] add_room_def [THEN fun_cong]
  create_corridor_def [THEN fun_cong] connect_rooms_def [THEN fun_cong] add_traps_def [THEN fun_cong]
  add_side_room_def [THEN fun_cong] generate_final_area_def [THEN fun_cong] add_regular_room_def [THEN fun_cong]
  generate_def [THEN fun_cong] add_extra_enemy_def [THEN fun_cong] raise_levels_def [THEN fun_cong]
  pop_random_item_def [THEN fun_cong] make_elite_def [THEN fun_cong] second_boss_def [THEN fun_cong]
  apply_modifier_def [THEN fun_cong] apply_heat_modifiers_def [THEN fun_cong] generate_area_def [THEN fun_cong]
  generate_all_areas_def [THEN fun_cong] increase_heat_def [THEN fun_cong]
  try_place_apply connect_loop_apply place_one_enemy_apply place_trap_apply

lemma upto_unfold: "[i..j] = (if i \<le> j then i # [i + 1..j] else [])"
  by (simp add: upto.simps)

lemma grid_set_run: "grid_set d x y t =
  (if in_bounds d (x, y) then Inr (paint d (\<lambda>p. p = (x, y)) t)
   else case py_index (height d) y of Inl e \<Rightarrow> Inl e
      | Inr j \<Rightarrow> (case py_index (width d) x of Inl e \<Rightarrow> Inl e
          | Inr i \<Rightarrow> Inr (paint d (\<lambda>p. p = (i, j)) t)))"
  by (auto simp: grid_set_in_bounds) (auto simp: grid_set_def paint_def fun_eq_iff split: sum.splits)

lemma carve_room_run: "carve_room d x y w h =
  (if 0 \<le> x \<and> x + w \<le> width d \<and> 0 \<le> y \<and> y + h \<le> height d
   then Inr (paint d (in_rect x y w h) FLOOR)
   else foldE (\<lambda>d1 room_y. foldE (\<lambda>d2 room_x. grid_set d2 room_x room_y FLOOR) d1 [x..x + w - 1])
       d [y..y + h - 1])"
  by (simp add: carve_room_closed) (simp add: carve_room_def)

lemma carve_h_run: "carve_h d y xa xb =
  (if 0 \<le> y \<and> y < height d \<and> 0 \<le> min xa xb \<and> max xa xb < width d
   then Inr (paint d (\<lambda>p. snd p = y \<and> min xa xb \<le> fst p \<and> fst p \<le> max xa xb) FLOOR)
   else foldE (\<lambda>d1 x. grid_set d1 x y FLOOR) d [min xa xb..max xa xb])"
  by (simp add: carve_h_closed) (simp add: carve_h_def)

lemma carve_v_run: "carve_v d x ya yb =
  (if 0 \<le> x \<and> x < width d \<and> 0 \<le> min ya yb \<and> max ya yb < height d
   then Inr (paint d (\<lambda>p. fst p = x \<and> min ya yb \<le> snd p \<and> snd p \<le> max ya yb) FLOOR)
   else foldE (\<lambda>d1 y. grid_set d1 x y FLOOR) d [min ya yb..max ya yb])"
  by (simp add: carve_v_closed) (simp add: carve_v_def)

lemma paint_wcong: "d = d' \<Longrightarrow> paint d S t = paint d' S t"
  by simp

lemmas run_pure = upto_unfold grid_set_run carve_room_run carve_h_run carve_v_run carve_clipped_closed
  in_bounds_def Room_def center_def feature_types_def rarity_of_roll_def stamp_def
  py_index_def populate_dungeon_def directions_def room_contains_def mark_connected_def
  closest_pair_def closer_def dist2_def intersects_def
  ROOM_MIN_SIZE_def ROOM_MAX_SIZE_def MIN_ROOMS_def MAX_ROOMS_def Dungeon_def

definition list_world :: "nat list \<Rightarrow> nat \<Rightarrow> world" where
  "list_world xs dflt = \<lparr>rng = (\<lambda>i. if i < length xs then xs ! i else dflt), heap = no_enemies, next_ref = 0\<rparr>"

end
